theory Spec2Isabelle
  imports Main "HOL-Library.Word"
begin

section \<open>The ML-KEM 512 handshake test program (test\_mlkem512\_handshake.c)\<close>

text \<open>
  The test program calls the wolfCrypt library and only looks at the return codes and at
  the two shared-secret buffers. The library is not part of the program, so each call is
  represented by what it hands back: a record holds the return code of every call and the
  contents of the buffers the calls fill. C \<open>int\<close> return codes are only compared with
  0, stored and returned, never used in arithmetic, so they are modelled as \<open>int\<close>.
\<close>

type_synonym byte = "8 word"

record mlkem_calls =
  rc_InitRng :: int
  rc_Init_server :: int
  rc_MakeKey :: int
  rc_EncodePublicKey :: int
  rc_Init_client :: int
  rc_DecodePublicKey :: int
  rc_Encapsulate :: int
  rc_Decapsulate :: int
  client_shared_secret :: "byte list"
  server_shared_secret :: "byte list"

text \<open>\<open>WC_ML_KEM_SS_SZ\<close>: the length of a shared secret, 32 bytes.\<close>

definition WC_ML_KEM_SS_SZ :: nat where
  "WC_ML_KEM_SS_SZ = 32"

text \<open>
  \<open>memcmp(a, b, n) == 0\<close>: the first \<open>n\<close> bytes of both buffers agree.
\<close>

definition memcmp_eq :: "byte list \<Rightarrow> byte list \<Rightarrow> nat \<Rightarrow> bool" where
  "memcmp_eq a b n = (take n a = take n b)"

text \<open>
  \<open>test_mlkem512_handshake_simulation\<close>: every failing call returns its code (directly
  for the RNG, through \<open>goto cleanup\<close> for the others); when all calls succeed the
  result is 0 if the two shared secrets agree and -1 if they do not.
\<close>

definition test_mlkem512_handshake_simulation :: "mlkem_calls \<Rightarrow> int" where
  "test_mlkem512_handshake_simulation c =
     (if rc_InitRng c \<noteq> 0 then rc_InitRng c
      else if rc_Init_server c \<noteq> 0 then rc_Init_server c
      else if rc_MakeKey c \<noteq> 0 then rc_MakeKey c
      else if rc_EncodePublicKey c \<noteq> 0 then rc_EncodePublicKey c
      else if rc_Init_client c \<noteq> 0 then rc_Init_client c
      else if rc_DecodePublicKey c \<noteq> 0 then rc_DecodePublicKey c
      else if rc_Encapsulate c \<noteq> 0 then rc_Encapsulate c
      else if rc_Decapsulate c \<noteq> 0 then rc_Decapsulate c
      else if memcmp_eq (server_shared_secret c) (client_shared_secret c) WC_ML_KEM_SS_SZ
      then 0 else - 1)"

record ascon_calls =
  rc_Hash256_Init :: int
  rc_Hash256_Update :: int
  rc_Hash256_Final :: int
  rc_Xof128_Init :: int
  rc_Xof128_Absorb :: int
  rc_Xof128_Squeeze :: int

text \<open>
  The chain \<open>ret = f(); if (ret == 0) ret = g(); if (ret == 0) ret = h();\<close> keeps the
  first nonzero code.
\<close>

definition chain3 :: "int \<Rightarrow> int \<Rightarrow> int \<Rightarrow> int" where
  "chain3 a b c = (if a \<noteq> 0 then a else if b \<noteq> 0 then b else c)"

definition test_mlkem512_with_ascon_verification :: "ascon_calls \<Rightarrow> int" where
  "test_mlkem512_with_ascon_verification a =
     (let ret = chain3 (rc_Hash256_Init a) (rc_Hash256_Update a) (rc_Hash256_Final a) in
      if ret \<noteq> 0 then ret
      else
        let ret = chain3 (rc_Xof128_Init a) (rc_Xof128_Absorb a) (rc_Xof128_Squeeze a) in
        if ret \<noteq> 0 then ret else 0)"

text \<open>
  \<open>main\<close> runs both subtests unconditionally and decides on the two results.
\<close>

definition main_result :: "int \<Rightarrow> int \<Rightarrow> int" where
  "main_result ret1 ret2 = (if ret1 = 0 \<and> ret2 = 0 then 0 else 1)"

definition handshake_test_main :: "mlkem_calls \<Rightarrow> ascon_calls \<Rightarrow> int" where
  "handshake_test_main c a =
     (let ret1 = test_mlkem512_handshake_simulation c;
          ret2 = test_mlkem512_with_ascon_verification a
      in main_result ret1 ret2)"

section \<open>The embedded transport callbacks (cortex\_m4\_tls\_client.c)\<close>

text \<open>
  The callbacks read the process-wide \<open>socket_fd\<close> and call the operating system's
  \<open>recv\<close> and \<open>send\<close>. The operating system is a parameter: a function from the
  descriptor and the requested size to the C return value (at most the requested size,
  or -1, so storing it in an \<open>int\<close> loses nothing). The \<open>WOLFSSL_CBIO_ERR_*\<close>
  codes come from a library header that is not part of the program, so they are
  parameters too.
\<close>

record cbio_codes =
  WOLFSSL_CBIO_ERR_CONN_CLOSE :: int
  WOLFSSL_CBIO_ERR_WANT_READ :: int
  WOLFSSL_CBIO_ERR_WANT_WRITE :: int

definition EmbedReceive :: "cbio_codes \<Rightarrow> (int \<Rightarrow> int \<Rightarrow> int) \<Rightarrow> int \<Rightarrow> int \<Rightarrow> int" where
  "EmbedReceive k recv socket_fd sz =
     (if socket_fd < 0 then WOLFSSL_CBIO_ERR_CONN_CLOSE k
      else
        let received = recv socket_fd sz in
        if received \<le> 0 then WOLFSSL_CBIO_ERR_WANT_READ k
        else received)"

definition EmbedSend :: "cbio_codes \<Rightarrow> (int \<Rightarrow> int \<Rightarrow> int) \<Rightarrow> int \<Rightarrow> int \<Rightarrow> int" where
  "EmbedSend k send socket_fd sz =
     (if socket_fd < 0 then WOLFSSL_CBIO_ERR_CONN_CLOSE k
      else
        let sent = send socket_fd sz in
        if sent \<le> 0 then WOLFSSL_CBIO_ERR_WANT_WRITE k
        else sent)"

section \<open>The interactive message loop (cortex\_m4\_tls\_client.c, main)\<close>

definition CLIENT_BUFFER_SIZE :: nat where
  "CLIENT_BUFFER_SIZE = 512"

definition MAX_MESSAGE_LENGTH :: nat where
  "MAX_MESSAGE_LENGTH = 256"

text \<open>
  Standard input is the sequence of characters still to be read. \<open>fgets(buffer, n, stdin)\<close>
  stores at most \<open>n - 1\<close> characters, stops after a newline (which it stores), and
  returns \<open>NULL\<close> when the input is at its end and nothing was read. The model returns
  the characters stored and the input that remains. The input is finite: the loop below
  ends at its end, and what is proved of the calls it makes holds for every input read
  so far.
\<close>

fun fgets_chars :: "nat \<Rightarrow> string \<Rightarrow> string \<times> string" where
  "fgets_chars 0 cs = ([], cs)"
| "fgets_chars (Suc k) [] = ([], [])"
| "fgets_chars (Suc k) (c # cs) =
     (if c = CHR 0x0A then ([c], cs)
      else (case fgets_chars k cs of (a, b) \<Rightarrow> (c # a, b)))"

definition fgets :: "nat \<Rightarrow> string \<Rightarrow> (string \<times> string) option" where
  "fgets n stdin = (if stdin = [] then None else Some (fgets_chars (n - 1) stdin))"

text \<open>
  The buffer holds the stored characters followed by a terminating NUL; as a C string it
  ends at the first NUL, which may be one read from the input.
\<close>

definition c_string :: "string \<Rightarrow> string" where
  "c_string buf = takeWhile (\<lambda>c. c \<noteq> CHR 0x00) buf"

text \<open>\<open>strcspn(buffer, "\n")\<close>: the number of leading characters that are no newline.\<close>

definition strcspn_newline :: "string \<Rightarrow> nat" where
  "strcspn_newline buf = length (takeWhile (\<lambda>c. c \<noteq> CHR 0x0A) (c_string buf))"

text \<open>
  \<open>buffer[strcspn(buffer, "\n")] = '\0'\<close>: the C string in the buffer afterwards.
\<close>

definition strip_newline :: "string \<Rightarrow> string" where
  "strip_newline buf = take (strcspn_newline buf) (c_string buf)"

text \<open>\<open>strncmp(buffer, "quit", 4) == 0\<close>\<close>

definition is_quit :: "string \<Rightarrow> bool" where
  "is_quit msg = (take 4 msg = ''quit'')"

text \<open>
  What the loop does to the outside, in order. \<open>Write p\<close> is a call
  \<open>wolfSSL_write(ssl, buffer, strlen(buffer))\<close> with the payload \<open>p\<close>.
\<close>

datatype event =
    Prompt
  | Warning_too_long
  | Write string
  | Send_failed
  | Received
  | Receive_failed

text \<open>
  The TLS library is a parameter: \<open>wolfSSL_write\<close> and \<open>wolfSSL_read\<close> take the
  connection and return the C return value and the connection afterwards. The loop ends
  at the end of input, at a message that starts with \<open>quit\<close>, or at a failed send or
  receive; a message longer than \<open>MAX_MESSAGE_LENGTH\<close> is skipped by \<open>continue\<close>.
\<close>

function message_loop ::
  "('ssl \<Rightarrow> string \<Rightarrow> int \<times> 'ssl) \<Rightarrow> ('ssl \<Rightarrow> nat \<Rightarrow> int \<times> 'ssl) \<Rightarrow> 'ssl \<Rightarrow> string \<Rightarrow> event list"
where
  "message_loop wolfSSL_write wolfSSL_read ssl stdin =
     (case fgets CLIENT_BUFFER_SIZE stdin of
        None \<Rightarrow> [Prompt]
      | Some (buffer, rest) \<Rightarrow>
          let msg = strip_newline buffer in
          if is_quit msg then [Prompt]
          else if length msg > MAX_MESSAGE_LENGTH
          then Prompt # Warning_too_long # message_loop wolfSSL_write wolfSSL_read ssl rest
          else
            (case wolfSSL_write ssl msg of (ret, ssl1) \<Rightarrow>
               if ret \<le> 0 then [Prompt, Write msg, Send_failed]
               else
                 (case wolfSSL_read ssl1 (CLIENT_BUFFER_SIZE - 1) of (ret2, ssl2) \<Rightarrow>
                    if ret2 > 0
                    then Prompt # Write msg # Received
                           # message_loop wolfSSL_write wolfSSL_read ssl2 rest
                    else [Prompt, Write msg, Receive_failed])))"
  by pat_completeness auto

lemma fgets_chars_shorter:
  "0 < k \<Longrightarrow> cs \<noteq> [] \<Longrightarrow> fgets_chars k cs = (a, b) \<Longrightarrow> length b < length cs"
proof (induction k cs arbitrary: a b rule: fgets_chars.induct)
  case (3 k c cs)
  show ?case
  proof (cases "c = CHR 0x0A")
    case True
    with 3 show ?thesis by simp
  next
    case False
    obtain a' b' where ab: "fgets_chars k cs = (a', b')" by (cases "fgets_chars k cs")
    with False 3 have b: "b = b'" by simp
    show ?thesis
    proof (cases "0 < k \<and> cs \<noteq> []")
      case True
      with 3 False ab have "length b' < length cs" by blast
      with b show ?thesis by simp
    next
      case False
      with ab have "length b' \<le> length cs" by (cases k; cases cs) auto
      with b show ?thesis by simp
    qed
  qed
qed simp_all

lemma fgets_shorter:
  "fgets CLIENT_BUFFER_SIZE stdin = Some (buffer, rest) \<Longrightarrow> length rest < length stdin"
  by (auto simp: fgets_def CLIENT_BUFFER_SIZE_def split: if_splits
           dest: fgets_chars_shorter [rotated 2])

termination message_loop
  by (relation "measure (\<lambda>(w, r, s, stdin). length stdin)") (auto dest: fgets_shorter)

declare message_loop.simps [simp del]

section \<open>The sponge engine behind the XOF calls\<close>

text \<open>
  The programs call \<open>wc_AsconXof128_Init\<close>, \<open>wc_AsconXof128_Absorb\<close>,
  \<open>wc_AsconXof128_Squeeze\<close> and \<open>wc_AsconXof128_Clear\<close> in this order and check the
  return codes (ascon\_key\_derivation\_test.c). The functions themselves are in the
  library, so the engine is modelled from the specification's section 4.1 and the
  \<open>SpongeState\<close> entry of its data model. The width of the rate, the initialization
  vector, the permutation and the padding rule are not given there: they are parameters.
\<close>

text \<open>Modelled from the spec: the error of an absorb call in the wrong phase
  (the library's return code is not in the sources).\<close>

datatype sponge_error = InvalidState

text \<open>Modelled from the spec: the phase flag of the sponge state,
  \<open>{ABSORBING, SQUEEZING}\<close> (the library's state type is not in the sources).\<close>

datatype phase = ABSORBING | SQUEEZING

text \<open>Modelled from the spec: \<open>SpongeState\<close>, "fixed-size internal state array (rate +
  capacity bytes) plus a phase flag" (the library's state type is not in the sources).\<close>

record SpongeState =
  state :: "byte list"
  phase :: phase

text \<open>Modelled from the spec: what section 4.1 leaves to the primitive, taken as
  parameters: the number of rate bytes, "the defined initialization vector", the
  permutation and the padding of an absorbed input.\<close>

record sponge_params =
  rate :: nat
  IV :: "byte list"
  permutation :: "byte list \<Rightarrow> byte list"
  padding :: "byte list \<Rightarrow> byte list"

text \<open>Modelled from the spec: "\<open>init()\<close> resets state to the defined initialization
  vector" (\<open>wc_AsconXof128_Init\<close> is not in the sources). The C call overwrites the
  state it is handed; nothing of the old state survives.\<close>

definition init :: "sponge_params \<Rightarrow> SpongeState \<Rightarrow> SpongeState" where
  "init P s = \<lparr>state = IV P, phase = ABSORBING\<rparr>"

text \<open>Modelled from the spec: "XORs input into the rate portion": the input bytes are
  XORed onto the leading bytes of the state array.\<close>

fun xor_into :: "byte list \<Rightarrow> byte list \<Rightarrow> byte list" where
  "xor_into [] st = st"
| "xor_into (b # bs) [] = []"
| "xor_into (b # bs) (x # st) = xor x b # xor_into bs st"

text \<open>Modelled from the spec: "XORs input (padded/block-wise) into the rate portion and
  applies the permutation after each full block": a full block of \<open>rate\<close> bytes is XORed
  in and followed by the permutation; a shorter last block is XORed in only.\<close>

function absorb_blocks :: "sponge_params \<Rightarrow> byte list \<Rightarrow> byte list \<Rightarrow> byte list" where
  "absorb_blocks P st bs =
     (if rate P = 0 then st
      else if length bs < rate P then xor_into bs st
      else absorb_blocks P (permutation P (xor_into (take (rate P) bs) st)) (drop (rate P) bs))"
  by pat_completeness auto
termination
  by (relation "measure (\<lambda>(P, st, bs). length bs)") auto

declare absorb_blocks.simps [simp del]

text \<open>Modelled from the spec: \<open>absorb(bytes)\<close> "fails with \<open>InvalidState\<close> if called
  after squeezing has begun" (\<open>wc_AsconXof128_Absorb\<close> is not in the sources).\<close>

definition absorb :: "sponge_params \<Rightarrow> SpongeState \<Rightarrow> byte list \<Rightarrow> sponge_error + SpongeState" where
  "absorb P s bytes =
     (if phase s = SQUEEZING then Inl InvalidState
      else Inr (s\<lparr>state := absorb_blocks P (state s) (padding P bytes)\<rparr>))"

text \<open>Modelled from the spec: "\<open>squeeze(n)\<close> extracts \<open>n\<close> bytes from the rate portion,
  applying the permutation between output blocks as needed". The result is the output and
  the state array after the last permutation.\<close>

function squeeze_blocks :: "sponge_params \<Rightarrow> byte list \<Rightarrow> nat \<Rightarrow> byte list \<times> byte list" where
  "squeeze_blocks P st n =
     (if n = 0 \<or> rate P = 0 then ([], st)
      else if n \<le> rate P then (take n st, st)
      else (case squeeze_blocks P (permutation P st) (n - rate P) of
              (out, st') \<Rightarrow> (take (rate P) st @ out, st')))"
  by pat_completeness auto
termination
  by (relation "measure (\<lambda>(P, st, n). n)") auto

declare squeeze_blocks.simps [simp del]

text \<open>Modelled from the spec: \<open>squeeze(n)\<close> (\<open>wc_AsconXof128_Squeeze\<close> is not in the
  sources). A squeeze call is what begins squeezing: it sets the phase flag.\<close>

definition squeeze :: "sponge_params \<Rightarrow> SpongeState \<Rightarrow> nat \<Rightarrow> byte list \<times> SpongeState" where
  "squeeze P s n =
     (case squeeze_blocks P (state s) n of
        (out, st') \<Rightarrow> (out, s\<lparr>state := st', phase := SQUEEZING\<rparr>))"

text \<open>Modelled from the spec: "\<open>clear()\<close> zeroes all state unconditionally (callable at
  any time, idempotent)" (\<open>wc_AsconXof128_Clear\<close> is not in the sources). The state array
  is zeroed. The phase flag stays: the spec calls the phase transition irreversible and
  the sponge "restartable only via a fresh \<open>init\<close>".\<close>

definition clear :: "SpongeState \<Rightarrow> SpongeState" where
  "clear s = s\<lparr>state := map (\<lambda>b. 0) (state s)\<rparr>"

text \<open>
  The calls a program can make on a sponge state other than \<open>init\<close>, and their effect on
  the state. A failed absorb leaves the state as it was.
\<close>

datatype sponge_call = Absorb "byte list" | Squeeze nat | Clear

fun call :: "sponge_params \<Rightarrow> SpongeState \<Rightarrow> sponge_call \<Rightarrow> SpongeState" where
  "call P s (Absorb bytes) = (case absorb P s bytes of Inl e \<Rightarrow> s | Inr s' \<Rightarrow> s')"
| "call P s (Squeeze n) = snd (squeeze P s n)"
| "call P s Clear = clear s"

text \<open>
  The key derivation of ascon\_key\_derivation\_test.c, lines 49 to 63, for any number of
  absorb calls: \<open>init\<close>, then each absorb while the return code is 0, then \<open>squeeze\<close>.
\<close>

fun absorb_all :: "sponge_params \<Rightarrow> SpongeState \<Rightarrow> byte list list \<Rightarrow> sponge_error + SpongeState" where
  "absorb_all P s [] = Inr s"
| "absorb_all P s (bytes # rest) =
     (case absorb P s bytes of Inl e \<Rightarrow> Inl e | Inr s' \<Rightarrow> absorb_all P s' rest)"

definition xof_run ::
  "sponge_params \<Rightarrow> SpongeState \<Rightarrow> byte list list \<Rightarrow> nat \<Rightarrow> sponge_error + byte list" where
  "xof_run P s0 inputs n =
     (case absorb_all P (init P s0) inputs of
        Inl e \<Rightarrow> Inl e
      | Inr s \<Rightarrow> Inr (fst (squeeze P s n)))"

text \<open>
  A small instance on which the model is evaluated: four state bytes, two of them rate,
  a permutation that adds one to every byte and rotates, and a padding that appends a
  one byte and zero bytes up to a full block. It is not the Ascon permutation.
\<close>

definition toy_sponge :: sponge_params where
  "toy_sponge =
     \<lparr>rate = 2, IV = [1, 2, 3, 4],
      permutation = (\<lambda>st. rotate1 (map (\<lambda>b. b + 1) st)),
      padding = (\<lambda>bs. bs @ [1] @ replicate ((2 - Suc (length bs) mod 2) mod 2) 0)\<rparr>"

lemma squeeze_phase: "phase (snd (squeeze P s n)) = SQUEEZING"
  by (simp add: squeeze_def split: prod.splits)

lemma call_keeps_squeezing: "phase s = SQUEEZING \<Longrightarrow> phase (call P s c) = SQUEEZING"
  by (cases c) (simp_all add: absorb_def squeeze_phase clear_def)

lemma calls_keep_squeezing:
  "phase s = SQUEEZING \<Longrightarrow> phase (foldl (call P) s cs) = SQUEEZING"
  by (induction cs arbitrary: s) (simp_all add: call_keeps_squeezing)

lemma absorb_all_absorbing:
  "phase s = ABSORBING \<Longrightarrow> \<exists>s'. absorb_all P s inputs = Inr s' \<and> phase s' = ABSORBING"
  by (induction inputs arbitrary: s) (simp_all add: absorb_def)

section \<open>Results\<close>

text \<open>
  C8. The main function of the handshake test program exits with status 0 exactly when
  both the handshake simulation subtest and the Ascon verification subtest return 0, and
  with status 1 when either of them returns a nonzero value.
\<close>

theorem C8_main_exit_status:
  "(handshake_test_main c a = 0 \<longleftrightarrow>
      test_mlkem512_handshake_simulation c = 0 \<and> test_mlkem512_with_ascon_verification a = 0)
   \<and> (test_mlkem512_handshake_simulation c \<noteq> 0 \<or> test_mlkem512_with_ascon_verification a \<noteq> 0
        \<longrightarrow> handshake_test_main c a = 1)"
  by (simp add: handshake_test_main_def main_result_def Let_def)

theorem C8_main_exit_status_witness:
  "test_mlkem512_handshake_simulation
      \<lparr>rc_InitRng = 0, rc_Init_server = 0, rc_MakeKey = 0, rc_EncodePublicKey = 0,
       rc_Init_client = 0, rc_DecodePublicKey = - 132, rc_Encapsulate = 0,
       rc_Decapsulate = 0, client_shared_secret = [], server_shared_secret = []\<rparr> \<noteq> 0
   \<and> handshake_test_main
      \<lparr>rc_InitRng = 0, rc_Init_server = 0, rc_MakeKey = 0, rc_EncodePublicKey = 0,
       rc_Init_client = 0, rc_DecodePublicKey = - 132, rc_Encapsulate = 0,
       rc_Decapsulate = 0, client_shared_secret = [], server_shared_secret = []\<rparr>
      \<lparr>rc_Hash256_Init = 0, rc_Hash256_Update = 0, rc_Hash256_Final = 0,
       rc_Xof128_Init = 0, rc_Xof128_Absorb = 0, rc_Xof128_Squeeze = 0\<rparr> = 1"
  using C8_main_exit_status
    [of "\<lparr>rc_InitRng = 0, rc_Init_server = 0, rc_MakeKey = 0, rc_EncodePublicKey = 0,
       rc_Init_client = 0, rc_DecodePublicKey = - 132, rc_Encapsulate = 0,
       rc_Decapsulate = 0, client_shared_secret = [], server_shared_secret = []\<rparr>"
        "\<lparr>rc_Hash256_Init = 0, rc_Hash256_Update = 0, rc_Hash256_Final = 0,
       rc_Xof128_Init = 0, rc_Xof128_Absorb = 0, rc_Xof128_Squeeze = 0\<rparr>"]
  by (simp add: test_mlkem512_handshake_simulation_def)

text \<open>
  C9. The transport callbacks hand the TLS core only the callback codes or a positive
  byte count: \<open>EmbedReceive\<close> returns \<open>WOLFSSL_CBIO_ERR_CONN_CLOSE\<close> when no socket is
  connected (\<open>socket_fd < 0\<close>), \<open>WOLFSSL_CBIO_ERR_WANT_READ\<close> when \<open>recv\<close> returns a
  value that is at most 0, and the positive byte count otherwise; \<open>EmbedSend\<close> does the
  same with \<open>send\<close> and \<open>WOLFSSL_CBIO_ERR_WANT_WRITE\<close>.
\<close>

theorem C9_transport_callbacks:
  "(socket_fd < 0 \<longrightarrow> EmbedReceive k recv socket_fd sz = WOLFSSL_CBIO_ERR_CONN_CLOSE k)
   \<and> (0 \<le> socket_fd \<and> recv socket_fd sz \<le> 0 \<longrightarrow>
        EmbedReceive k recv socket_fd sz = WOLFSSL_CBIO_ERR_WANT_READ k)
   \<and> (0 \<le> socket_fd \<and> 0 < recv socket_fd sz \<longrightarrow>
        EmbedReceive k recv socket_fd sz = recv socket_fd sz)
   \<and> (EmbedReceive k recv socket_fd sz = WOLFSSL_CBIO_ERR_CONN_CLOSE k
        \<or> EmbedReceive k recv socket_fd sz = WOLFSSL_CBIO_ERR_WANT_READ k
        \<or> 0 < EmbedReceive k recv socket_fd sz)
   \<and> (socket_fd < 0 \<longrightarrow> EmbedSend k send socket_fd sz = WOLFSSL_CBIO_ERR_CONN_CLOSE k)
   \<and> (0 \<le> socket_fd \<and> send socket_fd sz \<le> 0 \<longrightarrow>
        EmbedSend k send socket_fd sz = WOLFSSL_CBIO_ERR_WANT_WRITE k)
   \<and> (0 \<le> socket_fd \<and> 0 < send socket_fd sz \<longrightarrow>
        EmbedSend k send socket_fd sz = send socket_fd sz)
   \<and> (EmbedSend k send socket_fd sz = WOLFSSL_CBIO_ERR_CONN_CLOSE k
        \<or> EmbedSend k send socket_fd sz = WOLFSSL_CBIO_ERR_WANT_WRITE k
        \<or> 0 < EmbedSend k send socket_fd sz)"
  by (simp add: EmbedReceive_def EmbedSend_def Let_def)

theorem C9_transport_callbacks_witness:
  "EmbedReceive \<lparr>WOLFSSL_CBIO_ERR_CONN_CLOSE = - 5, WOLFSSL_CBIO_ERR_WANT_READ = - 2,
       WOLFSSL_CBIO_ERR_WANT_WRITE = - 2\<rparr> (\<lambda>fd sz. - 1) (- 1) 512 = - 5
   \<and> EmbedReceive \<lparr>WOLFSSL_CBIO_ERR_CONN_CLOSE = - 5, WOLFSSL_CBIO_ERR_WANT_READ = - 2,
       WOLFSSL_CBIO_ERR_WANT_WRITE = - 2\<rparr> (\<lambda>fd sz. - 1) 3 512 = - 2
   \<and> EmbedReceive \<lparr>WOLFSSL_CBIO_ERR_CONN_CLOSE = - 5, WOLFSSL_CBIO_ERR_WANT_READ = - 2,
       WOLFSSL_CBIO_ERR_WANT_WRITE = - 2\<rparr> (\<lambda>fd sz. 100) 3 512 = 100
   \<and> EmbedSend \<lparr>WOLFSSL_CBIO_ERR_CONN_CLOSE = - 5, WOLFSSL_CBIO_ERR_WANT_READ = - 2,
       WOLFSSL_CBIO_ERR_WANT_WRITE = - 2\<rparr> (\<lambda>fd sz. 0) (- 1) 512 = - 5
   \<and> EmbedSend \<lparr>WOLFSSL_CBIO_ERR_CONN_CLOSE = - 5, WOLFSSL_CBIO_ERR_WANT_READ = - 2,
       WOLFSSL_CBIO_ERR_WANT_WRITE = - 2\<rparr> (\<lambda>fd sz. 0) 3 512 = - 2
   \<and> EmbedSend \<lparr>WOLFSSL_CBIO_ERR_CONN_CLOSE = - 5, WOLFSSL_CBIO_ERR_WANT_READ = - 2,
       WOLFSSL_CBIO_ERR_WANT_WRITE = - 2\<rparr> (\<lambda>fd sz. sz) 3 512 = 512"
  using
    C9_transport_callbacks [of "- 1" "\<lparr>WOLFSSL_CBIO_ERR_CONN_CLOSE = - 5,
       WOLFSSL_CBIO_ERR_WANT_READ = - 2, WOLFSSL_CBIO_ERR_WANT_WRITE = - 2\<rparr>"
       "\<lambda>fd sz. - 1" 512 "\<lambda>fd sz. 0"]
    C9_transport_callbacks [of 3 "\<lparr>WOLFSSL_CBIO_ERR_CONN_CLOSE = - 5,
       WOLFSSL_CBIO_ERR_WANT_READ = - 2, WOLFSSL_CBIO_ERR_WANT_WRITE = - 2\<rparr>"
       "\<lambda>fd sz. - 1" 512 "\<lambda>fd sz. 0"]
    C9_transport_callbacks [of 3 "\<lparr>WOLFSSL_CBIO_ERR_CONN_CLOSE = - 5,
       WOLFSSL_CBIO_ERR_WANT_READ = - 2, WOLFSSL_CBIO_ERR_WANT_WRITE = - 2\<rparr>"
       "\<lambda>fd sz. 100" 512 "\<lambda>fd sz. sz"]
  by simp

text \<open>
  C10. In the client's message loop a message longer than \<open>MAX_MESSAGE_LENGTH\<close> (256
  bytes) is never written to the TLS connection: the loop prints the warning, writes
  nothing and prompts again with the rest of the input, so every payload passed to
  \<open>wolfSSL_write\<close> in the loop has length at most 256.
\<close>

theorem C10_message_loop_payload_bound:
  "(\<forall>p. Write p \<in> set (message_loop wolfSSL_write wolfSSL_read ssl stdin)
        \<longrightarrow> length p \<le> 256)
   \<and> (\<forall>buffer rest.
        fgets CLIENT_BUFFER_SIZE stdin = Some (buffer, rest)
        \<and> \<not> is_quit (strip_newline buffer)
        \<and> length (strip_newline buffer) > 256
        \<longrightarrow> message_loop wolfSSL_write wolfSSL_read ssl stdin
              = Prompt # Warning_too_long # message_loop wolfSSL_write wolfSSL_read ssl rest)"
proof
  show "\<forall>p. Write p \<in> set (message_loop wolfSSL_write wolfSSL_read ssl stdin)
          \<longrightarrow> length p \<le> 256"
  proof (induction wolfSSL_write wolfSSL_read ssl stdin rule: message_loop.induct)
    case (1 wr rd ssl stdin)
    show ?case
    proof (cases "fgets CLIENT_BUFFER_SIZE stdin")
      case None
      then show ?thesis by (simp add: message_loop.simps [of wr rd ssl stdin])
    next
      case (Some br)
      obtain buffer rest where br: "br = (buffer, rest)" by (cases br)
      define msg where "msg = strip_newline buffer"
      obtain ret ssl1 where w: "wr ssl msg = (ret, ssl1)" by (cases "wr ssl msg")
      obtain ret2 ssl2 where r: "rd ssl1 (CLIENT_BUFFER_SIZE - 1) = (ret2, ssl2)"
        by (cases "rd ssl1 (CLIENT_BUFFER_SIZE - 1)")
      note ih1 = "1.IH" (1) [OF Some br [symmetric] msg_def]
      note ih2 = "1.IH" (2) [OF Some br [symmetric] msg_def _ _ w [symmetric] _ r [symmetric]]
      show ?thesis
        using Some br w r ih1 ih2
        by (auto simp: message_loop.simps [of wr rd ssl stdin] msg_def [symmetric]
              MAX_MESSAGE_LENGTH_def Let_def)
    qed
  qed
next
  show "\<forall>buffer rest.
        fgets CLIENT_BUFFER_SIZE stdin = Some (buffer, rest)
        \<and> \<not> is_quit (strip_newline buffer)
        \<and> length (strip_newline buffer) > 256
        \<longrightarrow> message_loop wolfSSL_write wolfSSL_read ssl stdin
              = Prompt # Warning_too_long # message_loop wolfSSL_write wolfSSL_read ssl rest"
    by (simp add: message_loop.simps [of wolfSSL_write wolfSSL_read ssl stdin]
          MAX_MESSAGE_LENGTH_def Let_def)
qed

theorem C10_message_loop_payload_bound_witness:
  "Write ''hi'' \<in> set (message_loop (\<lambda>ssl msg. (int (length msg), ssl)) (\<lambda>ssl n. (1, ssl)) ()
                         [CHR ''h'', CHR ''i'', CHR 0x0A])
   \<and> length ''hi'' \<le> (256::nat)
   \<and> message_loop (\<lambda>ssl msg. (int (length msg), ssl)) (\<lambda>ssl n. (1, ssl)) ()
        (replicate 300 (CHR ''a'') @ [CHR 0x0A])
      = [Prompt, Warning_too_long, Prompt]"
proof -
  let ?wr = "\<lambda>(ssl::unit) (msg::string). (int (length msg), ssl)"
  let ?rd = "\<lambda>(ssl::unit) (n::nat). (1::int, ssl)"
  let ?long = "replicate 300 (CHR ''a'') @ [CHR 0x0A]"
  have w: "Write ''hi'' \<in> set (message_loop ?wr ?rd () [CHR ''h'', CHR ''i'', CHR 0x0A])"
    by code_simp
  have a: "fgets CLIENT_BUFFER_SIZE ?long = Some (?long, [])"
    by code_simp
  have b: "\<not> is_quit (strip_newline ?long)"
    by code_simp
  have c: "length (strip_newline ?long) > 256"
    by code_simp
  have d: "message_loop ?wr ?rd () [] = [Prompt]"
    by code_simp
  from C10_message_loop_payload_bound [of ?wr ?rd "()" "[CHR ''h'', CHR ''i'', CHR 0x0A]"] w
  have 1: "length ''hi'' \<le> (256::nat)" by blast
  from C10_message_loop_payload_bound [of ?wr ?rd "()" ?long] a b c
  have "message_loop ?wr ?rd () ?long = Prompt # Warning_too_long # message_loop ?wr ?rd () []"
    by blast
  with d have 2: "message_loop ?wr ?rd () ?long = [Prompt, Warning_too_long, Prompt]" by simp
  from w 1 2 show ?thesis by blast
qed

text \<open>
  C3. The squeeze output is a function of the absorbed inputs and their order alone: two
  runs that perform \<open>init\<close> and then the same absorb calls produce the same output,
  whatever the two states held before \<open>init\<close>; and such a run does produce output.
\<close>

theorem C3_squeeze_deterministic:
  "xof_run P s1 inputs n = xof_run P s2 inputs n
   \<and> (\<exists>out. xof_run P s1 inputs n = Inr out)"
proof -
  have i: "init P s1 = init P s2" by (simp add: init_def)
  have "phase (init P s1) = ABSORBING" by (simp add: init_def)
  from absorb_all_absorbing [OF this, of P inputs]
  obtain s' where "absorb_all P (init P s1) inputs = Inr s'" by blast
  then have "xof_run P s1 inputs n = Inr (fst (squeeze P s' n))"
    by (simp add: xof_run_def)
  moreover have "xof_run P s1 inputs n = xof_run P s2 inputs n"
    by (simp add: xof_run_def i)
  ultimately show ?thesis by blast
qed

theorem C3_squeeze_deterministic_witness:
  "xof_run toy_sponge \<lparr>state = [], phase = ABSORBING\<rparr> [[5, 6, 7], [8]] 5
     = xof_run toy_sponge \<lparr>state = [9, 9, 9, 9], phase = SQUEEZING\<rparr> [[5, 6, 7], [8]] 5
   \<and> xof_run toy_sponge \<lparr>state = [9, 9, 9, 9], phase = SQUEEZING\<rparr> [[5, 6, 7], [8]] 5
     = Inr [8, 7, 8, 5, 6]"
proof -
  have "xof_run toy_sponge \<lparr>state = [9, 9, 9, 9], phase = SQUEEZING\<rparr> [[5, 6, 7], [8]] 5
          = Inr [8, 7, 8, 5, 6]"
    by code_simp
  with C3_squeeze_deterministic
    [of toy_sponge "\<lparr>state = [], phase = ABSORBING\<rparr>" "[[5, 6, 7], [8]]" 5
        "\<lparr>state = [9, 9, 9, 9], phase = SQUEEZING\<rparr>"]
  show ?thesis by simp
qed

text \<open>
  C4. Once a squeeze call has been made on a sponge state, every later absorb call on it
  fails with \<open>InvalidState\<close>, whatever absorb, squeeze and clear calls come in between;
  after a fresh \<open>init\<close> an absorb call is accepted again.
\<close>

theorem C4_absorb_after_squeeze:
  "absorb P (foldl (call P) (snd (squeeze P s n)) cs) bytes = Inl InvalidState
   \<and> (\<exists>s'. absorb P (init P (foldl (call P) (snd (squeeze P s n)) cs)) bytes = Inr s')"
  by (simp add: absorb_def calls_keep_squeezing squeeze_phase init_def)

theorem C4_absorb_after_squeeze_witness:
  "absorb toy_sponge
      (foldl (call toy_sponge) (snd (squeeze toy_sponge (init toy_sponge \<lparr>state = [], phase = ABSORBING\<rparr>) 3))
         [Absorb [7], Clear, Squeeze 2])
      [1, 2] = Inl InvalidState
   \<and> phase (foldl (call toy_sponge) (snd (squeeze toy_sponge (init toy_sponge \<lparr>state = [], phase = ABSORBING\<rparr>) 3))
         [Absorb [7], Clear, Squeeze 2]) = SQUEEZING"
proof -
  have "phase (foldl (call toy_sponge)
          (snd (squeeze toy_sponge (init toy_sponge \<lparr>state = [], phase = ABSORBING\<rparr>) 3))
          [Absorb [7], Clear, Squeeze 2]) = SQUEEZING"
    by code_simp
  with C4_absorb_after_squeeze
    [of toy_sponge "init toy_sponge \<lparr>state = [], phase = ABSORBING\<rparr>" 3
        "[Absorb [7], Clear, Squeeze 2]" "[1, 2]"]
  show ?thesis by simp
qed

end
